theory Spec2Isabelle
  imports Main "HOL-Library.Word"
begin

unbundle bit_operations_syntax

section \<open>The fixed-size linear allocator of \<^verbatim>\<open>linear_allocator.hpp\<close>\<close>

text \<open>
  A shallow embedding of the class template \<^verbatim>\<open>linear_allocator<T>\<close> as it is written in
  \<^verbatim>\<open>src/cpp/linear_allocator.hpp\<close>. The object is a record of its data members; every
  member function takes the object and returns the object as the call leaves it, together
  with the returned value or the exception thrown. \<^verbatim>\<open>std::size_t\<close> and pointers are 64-bit
  words (arithmetic wraps), \<^verbatim>\<open>std::bitset<320>\<close> is a 320-bit word whose checked accessors
  throw \<^verbatim>\<open>std::out_of_range\<close>, and \<^verbatim>\<open>std::map\<close> is a partial function. The debug output
  under \<^verbatim>\<open>__linear_allocator_debug_enabled_\<close> has no effect on the object and is left out,
  as are \<^verbatim>\<open>construct\<close> and \<^verbatim>\<open>destroy\<close>, which act on the stored value and touch no data
  member.
\<close>

subsection \<open>Data\<close>

type_synonym size_t = "64 word"
type_synonym pointer = "64 word"
type_synonym bitset = "320 word"

definition nullptr :: pointer where [simp]:
  "nullptr = 0"

text \<open>The exceptions the header throws, and the one its bitset can throw.\<close>

datatype exn = length_error string | bad_alloc | out_of_range

text \<open>\<^verbatim>\<open>static constexpr std::size_t OBJECTS_LIMIT = 320;\<close>, the width of the bitset.\<close>

definition OBJECTS_LIMIT :: nat where
  "OBJECTS_LIMIT = 320"

text \<open>
  The data members. The source names end in an underscore (\<^verbatim>\<open>count_\<close>, \<^verbatim>\<open>buffer_\<close>, ...),
  which is dropped here.
\<close>

record linear_allocator =
  count :: size_t
  elementSize :: size_t
  available_count :: size_t
  buffer :: pointer
  blocks_status :: bitset
  freedIndex :: size_t
  reserved_blocks_indices :: "pointer \<rightharpoonup> size_t"

subsection \<open>The standard containers used by the class\<close>

text \<open>\<^verbatim>\<open>std::bitset<N>::test(pos)\<close>: the bit at \<open>pos\<close>, or \<^verbatim>\<open>std::out_of_range\<close>.\<close>

definition bitset_test :: "bitset \<Rightarrow> size_t \<Rightarrow> exn + bool" where
  "bitset_test bs pos =
     (if unat pos < OBJECTS_LIMIT then Inr (bit bs (unat pos)) else Inl out_of_range)"

text \<open>\<^verbatim>\<open>std::bitset<N>::set(pos, value)\<close>: checked like \<^verbatim>\<open>test\<close>.\<close>

definition bitset_set :: "bitset \<Rightarrow> size_t \<Rightarrow> bool \<Rightarrow> exn + bitset" where
  "bitset_set bs pos v =
     (if unat pos < OBJECTS_LIMIT
      then Inr (if v then set_bit (unat pos) bs else unset_bit (unat pos) bs)
      else Inl out_of_range)"

text \<open>\<^verbatim>\<open>std::bitset<N>::count()\<close>: the number of bits set.\<close>

definition bitset_count :: "bitset \<Rightarrow> nat" where
  "bitset_count bs = length (filter (bit bs) [0..<OBJECTS_LIMIT])"

text \<open>
  \<^verbatim>\<open>std::map::operator[]\<close>: a key that is absent is inserted with the value-initialised
  mapped value, here 0; the value found and the map as the call leaves it.
\<close>

definition map_subscript :: "(pointer \<rightharpoonup> size_t) \<Rightarrow> pointer \<Rightarrow> size_t \<times> (pointer \<rightharpoonup> size_t)" where
  "map_subscript m k = (case m k of None \<Rightarrow> (0, m(k \<mapsto> 0)) | Some v \<Rightarrow> (v, m))"

subsection \<open>Construction\<close>

text \<open>
  The constructor \<^verbatim>\<open>linear_allocator(const std::size_t & pCount_)\<close>. The size of the
  element type and \<^verbatim>\<open>std::malloc\<close> (returning \<^verbatim>\<open>nullptr\<close> when it fails) are parameters.
  The constructor throws \<^verbatim>\<open>std::bad_alloc\<close> when the buffer is null, and nothing else.
\<close>

definition linear_allocator_ctor ::
    "size_t \<Rightarrow> (size_t \<Rightarrow> pointer) \<Rightarrow> size_t \<Rightarrow> exn + linear_allocator" where
  "linear_allocator_ctor sizeof_T malloc pCount =
     (let this = \<lparr>count = pCount, elementSize = sizeof_T, available_count = pCount,
                  buffer = nullptr, blocks_status = 0, freedIndex = 0,
                  reserved_blocks_indices = Map.empty\<rparr>;
          this = this\<lparr>buffer := malloc ((elementSize this * count this) * 1)\<rparr>
      in if buffer this = nullptr then Inl bad_alloc else Inr this)"

subsection \<open>Queries\<close>

definition available_size :: "linear_allocator \<Rightarrow> size_t" where
  "available_size this = available_count this"

definition reserved_size :: "linear_allocator \<Rightarrow> size_t" where
  "reserved_size this = count this - available_count this"

subsection \<open>allocate\<close>

abbreviation maximum_objects_exceeded :: exn where
  "maximum_objects_exceeded \<equiv>
     length_error ''linear_allocator::allocate - maximum objects exceeded''"

abbreviation only_one_object_at_once :: exn where
  "only_one_object_at_once \<equiv>
     length_error ''linear_allocator::allocate - this allocator supports only one object allocation at once''"

text \<open>
  The loop \<^verbatim>\<open>while ( i < count_ )\<close> of \<^verbatim>\<open>allocate\<close>, from block index \<open>i\<close> on: the first
  block whose bit is clear is reserved under the address
  \<^verbatim>\<open>buffer_ + ( freedIndex_ * elementSize_ )\<close>; when no block is left the function
  throws \<^verbatim>\<open>std::bad_alloc\<close>.
\<close>

function allocate_scan :: "linear_allocator \<Rightarrow> size_t \<Rightarrow> (exn + pointer) \<times> linear_allocator" where
  "allocate_scan this i =
     (if i < count this then
        (case bitset_test (blocks_status this) i of
           Inl e \<Rightarrow> (Inl e, this)
         | Inr reserved \<Rightarrow>
             if \<not> reserved then
               (let ptr = buffer this + freedIndex this * elementSize this in
                case bitset_set (blocks_status this) i True of
                  Inl e \<Rightarrow> (Inl e, this)
                | Inr bs \<Rightarrow>
                    (Inr ptr,
                     this\<lparr>blocks_status := bs,
                          reserved_blocks_indices := (reserved_blocks_indices this)(ptr \<mapsto> i)\<rparr>))
             else allocate_scan this (i + 1))
      else (Inl bad_alloc, this))"
  by pat_completeness auto
termination
proof (relation "measure (\<lambda>(this, i). unat (count this) - unat i)")
  show "wf (measure (\<lambda>(this, i). unat (count this) - unat i))"
    by simp
next
  fix this :: linear_allocator and i :: size_t
  assume "i < count this"
  then have below: "unat i < unat (count this)"
    by (simp add: word_less_nat_alt)
  moreover have "unat (count this) < 2 ^ LENGTH(64)"
    by (rule unsigned_less)
  ultimately have "unat i + unat (1 :: size_t) < 2 ^ LENGTH(64)"
    by simp
  then have "unat (i + 1) = unat i + unat (1 :: size_t)"
    by (rule unat_add_lem [THEN iffD1])
  with below
  show "((this, i + 1), (this, i)) \<in> measure (\<lambda>(this, i). unat (count this) - unat i)"
    by simp
qed

declare allocate_scan.simps [simp del]

text \<open>
  \<^verbatim>\<open>T * allocate( const size_type pCount = 1, const void *const = 0 )\<close>. The result is
  the pointer returned or the exception thrown, with the object as the call leaves it.
\<close>

definition allocate :: "linear_allocator \<Rightarrow> size_t \<Rightarrow> (exn + pointer) \<times> linear_allocator" where
  "allocate this pCount =
     (if available_count this < 1 then (Inl maximum_objects_exceeded, this)
      else if pCount > 1 then (Inl only_one_object_at_once, this)
      else if pCount < 1 then (Inr nullptr, this)
      else
        let this = this\<lparr>available_count := available_count this - pCount\<rparr> in
        if freedIndex this > 0 then
          (case bitset_test (blocks_status this) (freedIndex this) of
             Inl e \<Rightarrow> (Inl e, this)
           | Inr reserved \<Rightarrow>
               if \<not> reserved then
                 (let ptr = buffer this + freedIndex this * elementSize this in
                  case bitset_set (blocks_status this) (freedIndex this) True of
                    Inl e \<Rightarrow> (Inl e, this)
                  | Inr bs \<Rightarrow>
                      (Inr ptr,
                       this\<lparr>blocks_status := bs,
                            reserved_blocks_indices :=
                              (reserved_blocks_indices this)(ptr \<mapsto> freedIndex this),
                            freedIndex := 0\<rparr>))
               else allocate_scan (this\<lparr>freedIndex := 0\<rparr>) 0)
        else allocate_scan this 0)"

subsection \<open>deallocate\<close>

text \<open>
  \<^verbatim>\<open>void deallocate( pointer ptr_, const size_type size_ = 1 )\<close>. The block index is read
  with \<^verbatim>\<open>operator[]\<close> of the map, so an address without an entry reads as index 0.
\<close>

definition deallocate :: "linear_allocator \<Rightarrow> pointer \<Rightarrow> size_t \<Rightarrow> (exn + unit) \<times> linear_allocator" where
  "deallocate this ptr size' =
     (let (index, m) = map_subscript (reserved_blocks_indices this) ptr;
          this = this\<lparr>reserved_blocks_indices := m\<rparr>
      in case bitset_set (blocks_status this) index False of
           Inl e \<Rightarrow> (Inl e, this)
         | Inr bs \<Rightarrow>
             (Inr (),
              this\<lparr>blocks_status := bs,
                   freedIndex := index,
                   reserved_blocks_indices := (reserved_blocks_indices this)(ptr := None),
                   available_count := available_count this + size'\<rparr>))"

subsection \<open>Operators\<close>

text \<open>
  \<^verbatim>\<open>operator!=\<close> returns \<^verbatim>\<open>( *this != pOther )\<close>: it calls itself on the same operands.
  A call that does not return is the value \<open>None\<close>.
\<close>

partial_function (option) operator_ne :: "linear_allocator \<Rightarrow> linear_allocator \<Rightarrow> bool option" where
  "operator_ne this pOther = Option.bind (operator_ne this pOther) (\<lambda>r. Some r)"

text \<open>\<^verbatim>\<open>operator==\<close> returns \<^verbatim>\<open>true\<close>.\<close>

definition operator_eq :: "linear_allocator \<Rightarrow> linear_allocator \<Rightarrow> bool" where
  "operator_eq this pOther = True"

subsection \<open>The counting equation\<close>

text \<open>
  The number of available blocks equals the number of blocks minus the number of bits set
  in the bitset, read over the integers.
\<close>

definition count_invariant :: "linear_allocator \<Rightarrow> bool" where
  "count_invariant this \<longleftrightarrow>
     uint (available_count this) = uint (count this) - int (bitset_count (blocks_status this))"

subsection \<open>The objects of the test program\<close>

text \<open>A \<^verbatim>\<open>std::malloc\<close> that returns the block at \<open>p\<close>, and one that fails.\<close>

definition malloc_at :: "pointer \<Rightarrow> size_t \<Rightarrow> pointer" where
  "malloc_at p n = p"

definition malloc_fails :: "size_t \<Rightarrow> pointer" where
  "malloc_fails n = nullptr"

text \<open>
  \<^verbatim>\<open>linear_allocator<double> allocator_( 16 );\<close> of \<^verbatim>\<open>main.cpp\<close>, with its buffer at
  address \<open>0x1000\<close>; a second allocator of the same shape with its buffer at \<open>0x2000\<close>;
  and an allocator of one block.
\<close>

definition allocator :: linear_allocator where
  "allocator = \<lparr>count = 16, elementSize = 8, available_count = 16, buffer = 0x1000,
     blocks_status = 0, freedIndex = 0, reserved_blocks_indices = Map.empty\<rparr>"

definition other_allocator :: linear_allocator where
  "other_allocator = \<lparr>count = 16, elementSize = 8, available_count = 16, buffer = 0x2000,
     blocks_status = 0, freedIndex = 0, reserved_blocks_indices = Map.empty\<rparr>"

definition single :: linear_allocator where
  "single = \<lparr>count = 1, elementSize = 8, available_count = 1, buffer = 0x1000,
     blocks_status = 0, freedIndex = 0, reserved_blocks_indices = Map.empty\<rparr>"

text \<open>The equations that evaluate a call on a concrete object.\<close>

lemmas evaluation = allocate_def allocate_scan.simps deallocate_def map_subscript_def
  bitset_test_def bitset_set_def OBJECTS_LIMIT_def linear_allocator_ctor_def
  malloc_at_def malloc_fails_def allocator_def other_allocator_def single_def
  set_bit_eq_or unset_bit_eq_and_not

lemma allocator_constructed: "linear_allocator_ctor 8 (malloc_at 0x1000) 16 = Inr allocator"
  by (simp add: evaluation)

lemma other_allocator_constructed:
  "linear_allocator_ctor 8 (malloc_at 0x2000) 16 = Inr other_allocator"
  by (simp add: evaluation)

lemma single_constructed: "linear_allocator_ctor 8 (malloc_at 0x1000) 1 = Inr single"
  by (simp add: evaluation)

section \<open>Arithmetic on indices\<close>

text \<open>Incrementing an index below a bound does not wrap.\<close>

lemma unat_increment:
  fixes i c :: "'a::len word"
  assumes "i < c"
  shows "unat (i + 1) = Suc (unat i)"
proof -
  have "unat c < 2 ^ LENGTH('a)"
    by (rule unsigned_less)
  moreover from assms have "unat i < unat c"
    by (simp add: word_less_nat_alt)
  ultimately have "Suc (unat i) < 2 ^ LENGTH('a)"
    by linarith
  then have "unat i + unat (1 :: 'a word) < 2 ^ LENGTH('a)"
    by simp
  then have "unat (i + 1) = unat i + unat (1 :: 'a word)"
    by (rule unat_add_lem [THEN iffD1])
  then show ?thesis
    by simp
qed


section \<open>Properties of the containers\<close>

text \<open>The count of a bitset is the number of positions whose bit is set.\<close>

lemma bit_bitset_less: "n < OBJECTS_LIMIT" if "bit bs n" for bs :: bitset
  using bit_imp_le_length [OF that] by (simp add: OBJECTS_LIMIT_def)

lemma bitset_count_card: "bitset_count bs = card {n. bit bs n}"
proof -
  have "{i. i < length [0..<OBJECTS_LIMIT] \<and> bit bs ([0..<OBJECTS_LIMIT] ! i)}
      = {i. i < OBJECTS_LIMIT \<and> bit bs i}"
    by (rule Collect_cong) auto
  also have "\<dots> = {n. bit bs n}"
    by (auto dest: bit_bitset_less)
  finally show ?thesis
    by (simp only: bitset_count_def length_filter_conv_card)
qed

lemma bitset_count_zero: "bitset_count 0 = 0"
  by (simp add: bitset_count_card)

lemma bitset_count_set:
  assumes "\<not> bit bs n" and "n < OBJECTS_LIMIT"
  shows "bitset_count (set_bit n bs) = Suc (bitset_count bs)"
proof -
  have "{k. bit (set_bit n bs) k} = insert n {k. bit bs k}"
    using assms by (auto simp: bit_set_bit_iff OBJECTS_LIMIT_def)
  with assms show ?thesis
    by (simp add: bitset_count_card)
qed

lemma bitset_count_unset:
  assumes "bit bs n"
  shows "Suc (bitset_count (unset_bit n bs)) = bitset_count bs"
proof -
  have "{k. bit (unset_bit n bs) k} = {k. bit bs k} - {n}"
    by (auto simp: bit_unset_bit_iff)
  moreover have "n \<in> {k. bit bs k}" and "finite {k. bit bs k}"
    using assms by simp_all
  ultimately show ?thesis
    unfolding bitset_count_card by (simp only: card_Suc_Diff1)
qed

section \<open>The scan loop\<close>

text \<open>
  When the loop throws, the object is as it was when the loop began. When it returns, it
  has reserved one block \<open>j\<close> whose bit was clear, under the address computed from
  \<^verbatim>\<open>freedIndex_\<close>.
\<close>

lemma allocate_scan_throws:
  "allocate_scan this i = (Inl e, this') \<Longrightarrow> this' = this \<and> (e = bad_alloc \<or> e = out_of_range)"
proof (induction this i rule: allocate_scan.induct)
  case (1 this i)
  show ?case
  proof (cases "i < count this \<and> unat i < OBJECTS_LIMIT \<and> bit (blocks_status this) (unat i)")
    case True
    with "1.prems" have "allocate_scan this (i + 1) = (Inl e, this')"
      by (subst (asm) allocate_scan.simps) (simp add: bitset_test_def)
    with True show ?thesis
      by (intro "1.IH" [of True]) (simp_all add: bitset_test_def)
  next
    case False
    with "1.prems" show ?thesis
      by (subst (asm) allocate_scan.simps)
        (auto simp: bitset_test_def bitset_set_def Let_def split: if_splits)
  qed
qed

lemma allocate_scan_returns:
  assumes "allocate_scan this i = (Inr p, this')"
  shows "\<exists>j. i \<le> j \<and> j < count this \<and> unat j < OBJECTS_LIMIT
            \<and> \<not> bit (blocks_status this) (unat j)
            \<and> p = buffer this + freedIndex this * elementSize this
            \<and> this' = this\<lparr>blocks_status := set_bit (unat j) (blocks_status this),
                            reserved_blocks_indices := (reserved_blocks_indices this)(p \<mapsto> j)\<rparr>"
  using assms
proof (induction this i rule: allocate_scan.induct)
  case (1 this i)
  show ?case
  proof (cases "bit (blocks_status this) (unat i)")
    case False
    with "1.prems" have "i < count this \<and> unat i < OBJECTS_LIMIT
            \<and> p = buffer this + freedIndex this * elementSize this
            \<and> this' = this\<lparr>blocks_status := set_bit (unat i) (blocks_status this),
                            reserved_blocks_indices := (reserved_blocks_indices this)(p \<mapsto> i)\<rparr>"
      by (subst (asm) allocate_scan.simps)
        (auto simp add: bitset_test_def bitset_set_def Let_def split: if_splits)
    moreover have "i \<le> i"
      by simp
    ultimately show ?thesis
      using False by blast
  next
    case True
    with "1.prems" have lt: "i < count this" and ok: "unat i < OBJECTS_LIMIT"
      and rec: "allocate_scan this (i + 1) = (Inr p, this')"
      by (subst (asm) allocate_scan.simps; simp add: bitset_test_def split: if_splits)+
    from lt ok True rec have "\<exists>j. i + 1 \<le> j \<and> j < count this \<and> unat j < OBJECTS_LIMIT
            \<and> \<not> bit (blocks_status this) (unat j)
            \<and> p = buffer this + freedIndex this * elementSize this
            \<and> this' = this\<lparr>blocks_status := set_bit (unat j) (blocks_status this),
                            reserved_blocks_indices := (reserved_blocks_indices this)(p \<mapsto> j)\<rparr>"
      by (intro "1.IH" [of True]) (simp_all add: bitset_test_def)
    moreover have "i \<le> j" if "i + 1 \<le> j" for j
      using that unat_increment [OF lt] by (simp add: word_le_nat_alt)
    ultimately show ?thesis by blast
  qed
qed

section \<open>The outcomes of allocate\<close>

text \<open>A count that is neither above nor below one is one.\<close>

lemma size_t_one: "\<not> n > 1 \<Longrightarrow> \<not> n < 1 \<Longrightarrow> n = 1" for n :: size_t
  by (simp add: not_less)

text \<open>
  A call of \<^verbatim>\<open>allocate\<close> that throws leaves the bitset and the map as they were, and the
  whole object when the exception is one of the two \<^verbatim>\<open>std::length_error\<close>s.
\<close>

lemma allocate_throws:
  assumes "allocate this pCount = (Inl e, this')"
  shows "blocks_status this' = blocks_status this"
    and "reserved_blocks_indices this' = reserved_blocks_indices this"
    and "e = maximum_objects_exceeded \<or> e = only_one_object_at_once \<Longrightarrow> this' = this"
proof -
  show "blocks_status this' = blocks_status this"
    using assms
    by (auto simp: allocate_def Let_def bitset_test_def bitset_set_def
        split: if_splits sum.splits dest: allocate_scan_throws)
  show "reserved_blocks_indices this' = reserved_blocks_indices this"
    using assms
    by (auto simp: allocate_def Let_def bitset_test_def bitset_set_def
        split: if_splits sum.splits dest: allocate_scan_throws)
  show "this' = this" if "e = maximum_objects_exceeded \<or> e = only_one_object_at_once"
    using assms that
    by (auto simp: allocate_def Let_def bitset_test_def bitset_set_def
        split: if_splits sum.splits dest: allocate_scan_throws)
qed

text \<open>
  A call of \<^verbatim>\<open>allocate\<close> that returns either was asked for no block and changed nothing,
  or was asked for one block and reserved a block \<open>j\<close> whose bit was clear, recorded
  under the returned address.
\<close>

lemma allocate_returns:
  assumes "allocate this pCount = (Inr p, this')"
  shows "1 \<le> available_count this \<and>
         (pCount = 0 \<and> p = nullptr \<and> this' = this \<or>
          pCount = 1 \<and> (\<exists>j. unat j < OBJECTS_LIMIT \<and> \<not> bit (blocks_status this) (unat j)
             \<and> this' = this\<lparr>available_count := available_count this - 1,
                  blocks_status := set_bit (unat j) (blocks_status this),
                  reserved_blocks_indices := (reserved_blocks_indices this)(p \<mapsto> j),
                  freedIndex := 0\<rparr>))"
proof -
  from assms have "\<not> available_count this < 1" and le: "\<not> 1 < pCount"
    by (auto simp: allocate_def split: if_splits)
  then have avail: "1 \<le> available_count this"
    by (simp only: not_less)
  show ?thesis
  proof (cases "pCount < 1")
    case True
    with assms avail le have "p = nullptr \<and> this' = this"
      by (auto simp: allocate_def split: if_splits)
    moreover from True have "pCount = 0"
      by (simp add: word_less_1)
    ultimately show ?thesis
      using avail by simp
  next
    case False
    with le have one: "pCount = 1"
      by (rule size_t_one)
    define that where "that = this\<lparr>available_count := available_count this - 1\<rparr>"
    show ?thesis
    proof (cases "0 < freedIndex this \<and> \<not> bit (blocks_status this) (unat (freedIndex this))")
      case True
      with assms avail one
      have "unat (freedIndex this) < OBJECTS_LIMIT"
        and "this' = this\<lparr>available_count := available_count this - 1,
                  blocks_status := set_bit (unat (freedIndex this)) (blocks_status this),
                  reserved_blocks_indices := (reserved_blocks_indices this)(p \<mapsto> freedIndex this),
                  freedIndex := 0\<rparr>"
        by (auto simp: allocate_def Let_def bitset_test_def bitset_set_def split: if_splits)
      with True avail one show ?thesis
        by blast
    next
      case False
      have "allocate_scan (that\<lparr>freedIndex := 0\<rparr>) 0 = (Inr p, this')"
      proof (cases "0 < freedIndex this")
        case True
        with False assms avail one show ?thesis
          by (auto simp: allocate_def Let_def bitset_test_def that_def split: if_splits)
      next
        case no_cache: False
        then have "freedIndex this = 0"
          by (simp add: word_gt_0)
        then have "that\<lparr>freedIndex := 0\<rparr> = that"
          by (cases this) (simp add: that_def)
        with no_cache assms avail one show ?thesis
          by (auto simp: allocate_def Let_def that_def split: if_splits)
      qed
      from allocate_scan_returns [OF this] obtain j where
        "unat j < OBJECTS_LIMIT" "\<not> bit (blocks_status this) (unat j)"
        "this' = this\<lparr>available_count := available_count this - 1,
                  blocks_status := set_bit (unat j) (blocks_status this),
                  reserved_blocks_indices := (reserved_blocks_indices this)(p \<mapsto> j),
                  freedIndex := 0\<rparr>"
        by (auto simp: that_def)
      with avail one show ?thesis
        by blast
    qed
  qed
qed

section \<open>The outcomes of deallocate\<close>

text \<open>
  An address with an entry whose index is inside the bitset is released: the bit is
  cleared, the index cached, the entry erased, the counter increased.
\<close>

lemma deallocate_tracked:
  assumes "reserved_blocks_indices this ptr = Some i" and "unat i < OBJECTS_LIMIT"
  shows "deallocate this ptr n =
    (Inr (), this\<lparr>blocks_status := unset_bit (unat i) (blocks_status this),
                   freedIndex := i,
                   reserved_blocks_indices := (reserved_blocks_indices this)(ptr := None),
                   available_count := available_count this + n\<rparr>)"
  using assms by (simp add: deallocate_def map_subscript_def bitset_set_def)

text \<open>When \<^verbatim>\<open>deallocate\<close> throws, the object is as it was.\<close>

lemma deallocate_throws:
  assumes "deallocate this ptr n = (Inl e, this')"
  shows "this' = this"
  using assms
  by (auto simp: deallocate_def map_subscript_def bitset_set_def OBJECTS_LIMIT_def
      split: option.splits if_splits)

section \<open>The counting equation under the operations\<close>

lemma count_invariant_iff:
  "count_invariant this \<longleftrightarrow>
     unat (available_count this) + bitset_count (blocks_status this) = unat (count this)"
proof -
  have "uint w = int (unat w)" for w :: size_t
    by simp
  then show ?thesis
    unfolding count_invariant_def by (simp only:) linarith
qed

lemma count_invariant_ctor:
  assumes "linear_allocator_ctor sizeof_T malloc pCount = Inr this"
  shows "count_invariant this"
  using assms
  by (auto simp: linear_allocator_ctor_def count_invariant_iff bitset_count_zero Let_def split: if_splits)

lemma count_invariant_allocate:
  assumes "count_invariant this" and "allocate this pCount = (Inr ptr, this')"
  shows "count_invariant this'"
proof -
  from allocate_returns [OF assms(2)] have avail: "1 \<le> available_count this"
    and cases: "this' = this \<or>
      (\<exists>j. unat j < OBJECTS_LIMIT \<and> \<not> bit (blocks_status this) (unat j)
             \<and> this' = this\<lparr>available_count := available_count this - 1,
                  blocks_status := set_bit (unat j) (blocks_status this),
                  reserved_blocks_indices := (reserved_blocks_indices this)(ptr \<mapsto> j),
                  freedIndex := 0\<rparr>)"
    by auto
  from cases show ?thesis
  proof
    assume "this' = this"
    with assms(1) show ?thesis by simp
  next
    assume "\<exists>j. unat j < OBJECTS_LIMIT \<and> \<not> bit (blocks_status this) (unat j)
             \<and> this' = this\<lparr>available_count := available_count this - 1,
                  blocks_status := set_bit (unat j) (blocks_status this),
                  reserved_blocks_indices := (reserved_blocks_indices this)(ptr \<mapsto> j),
                  freedIndex := 0\<rparr>"
    then obtain j where j: "unat j < OBJECTS_LIMIT" "\<not> bit (blocks_status this) (unat j)"
      and this': "this' = this\<lparr>available_count := available_count this - 1,
                  blocks_status := set_bit (unat j) (blocks_status this),
                  reserved_blocks_indices := (reserved_blocks_indices this)(ptr \<mapsto> j),
                  freedIndex := 0\<rparr>"
      by blast
    from avail have "unat (available_count this - 1) = unat (available_count this) - 1"
      by (simp add: unat_sub)
    moreover from avail have "1 \<le> unat (available_count this)"
      by (simp add: word_le_nat_alt)
    ultimately show ?thesis
      using assms(1) j by (simp add: this' count_invariant_iff bitset_count_set)
  qed
qed

lemma count_invariant_deallocate:
  assumes "count_invariant this" and "reserved_blocks_indices this ptr = Some i"
    and "bit (blocks_status this) (unat i)"
  shows "\<exists>this'. deallocate this ptr 1 = (Inr (), this') \<and> count_invariant this'"
proof -
  from assms(3) have i: "unat i < OBJECTS_LIMIT"
    by (rule bit_bitset_less)
  from assms(3) have bits: "bitset_count (blocks_status this) = Suc (bitset_count (unset_bit (unat i) (blocks_status this)))"
    by (simp add: bitset_count_unset)
  with assms(1) have "unat (available_count this) < unat (count this)"
    by (simp add: count_invariant_iff)
  moreover have "unat (count this) < 2 ^ 64"
    using unsigned_less [of "count this"] by simp
  ultimately have "unat (available_count this) + unat (1 :: size_t) < 2 ^ LENGTH(64)"
    by simp
  then have "unat (available_count this + 1) = unat (available_count this) + unat (1 :: size_t)"
    by (rule unat_add_lem [THEN iffD1])
  with assms(1) bits have "count_invariant (this\<lparr>blocks_status := unset_bit (unat i) (blocks_status this),
                   freedIndex := i,
                   reserved_blocks_indices := (reserved_blocks_indices this)(ptr := None),
                   available_count := available_count this + 1\<rparr>)"
    by (simp add: count_invariant_iff)
  with deallocate_tracked [OF assms(2) i, of 1] show ?thesis
    by simp
qed

text \<open>The exceptions \<^verbatim>\<open>allocate\<close> can throw.\<close>

lemma allocate_throws_kinds:
  assumes "allocate this pCount = (Inl e, this')"
  shows "e = maximum_objects_exceeded \<or> e = only_one_object_at_once
           \<or> e = bad_alloc \<or> e = out_of_range"
  using assms
  by (auto simp: allocate_def Let_def bitset_test_def bitset_set_def
      split: if_splits sum.splits dest: allocate_scan_throws)

section \<open>The claims\<close>

subsection \<open>C1: the address returned by the scan\<close>

text \<open>
  C1 states that when \<^verbatim>\<open>allocate\<close> takes the linear scan and finds block \<open>i\<close> free, the
  address it returns is the address of block \<open>i\<close>, the block it marks in the bitset and
  records in the map. The scan computes the address from \<^verbatim>\<open>freedIndex_\<close>, which is 0
  there, not from \<open>i\<close>. On the allocator of the test program the first call returns the
  buffer address \<open>0x1000\<close> for block 0; the second call scans to block 1, sets bit 1,
  records index 1, and returns \<open>0x1000\<close> again, where the address of block 1 is
  \<open>0x1008\<close>; the entry for block 0 is overwritten.
\<close>

theorem allocate_scan_returns_address_of_block_0:
  "fst (allocate allocator 1) = Inr 0x1000
   \<and> fst (allocate (snd (allocate allocator 1)) 1) = Inr 0x1000
   \<and> bit (blocks_status (snd (allocate (snd (allocate allocator 1)) 1))) 1
   \<and> reserved_blocks_indices (snd (allocate (snd (allocate allocator 1)) 1)) 0x1000 = Some 1
   \<and> buffer allocator + 1 * elementSize allocator = 0x1008"
  by (simp add: evaluation)

subsection \<open>C2: deallocating an address that is not reserved\<close>

text \<open>
  C2 states that \<^verbatim>\<open>deallocate\<close> of an address that was never returned, or that was
  already deallocated, fails with an invalid-address error and changes nothing. The
  function has no such check. Counterexample to C2: the address \<open>0x1000\<close> is allocated
  and deallocated, which gives the allocator as constructed; deallocating \<open>0x1000\<close> a
  second time returns normally and leaves 17 available blocks out of 16.
\<close>

theorem deallocate_twice_returns:
  "fst (allocate allocator 1) = Inr 0x1000
   \<and> snd (deallocate (snd (allocate allocator 1)) 0x1000 1) = allocator
   \<and> fst (deallocate allocator 0x1000 1) = Inr ()
   \<and> available_size allocator = 16
   \<and> available_size (snd (deallocate allocator 0x1000 1)) = 17"
  by (simp add: evaluation available_size_def)

text \<open>
  C2, amended: \<^verbatim>\<open>deallocate\<close> of an address that has no entry in the map does not fail.
  It returns normally, clears bit 0 of the bitset, sets the last freed index to 0, leaves
  the map as it was, and adds the size argument to the count of available blocks.
\<close>

theorem deallocate_untracked_address:
  assumes "reserved_blocks_indices this ptr = None"
  shows "deallocate this ptr size' =
    (Inr (), this\<lparr>blocks_status := unset_bit 0 (blocks_status this),
                   freedIndex := 0,
                   available_count := available_count this + size'\<rparr>)"
  using assms
  by (simp add: deallocate_def map_subscript_def bitset_set_def OBJECTS_LIMIT_def fun_upd_idem)

text \<open>Witness for C2, amended: the address \<open>0x2000\<close> on the allocator of the test program.\<close>

theorem deallocate_untracked_address_witness:
  "reserved_blocks_indices allocator 0x2000 = None
   \<and> deallocate allocator 0x2000 1 =
      (Inr (), allocator\<lparr>blocks_status := unset_bit 0 (blocks_status allocator),
                          freedIndex := 0,
                          available_count := available_count allocator + 1\<rparr>)"
proof -
  have untracked: "reserved_blocks_indices allocator 0x2000 = None"
    by (simp add: allocator_def)
  from untracked deallocate_untracked_address [OF untracked, of 1] show ?thesis
    by (rule conjI)
qed

subsection \<open>C3: the object after a call that throws\<close>

text \<open>
  C3 states that a call that fails leaves the counter, the bitset, the map and the last
  freed index exactly as they were. \<^verbatim>\<open>allocate\<close> decreases the counter before it
  searches. Counterexample to C3: on the allocator of one block, after a deallocation of
  \<open>0x2000\<close> and one allocation, one block counts as available and bit 0 is set; the next
  allocation throws \<^verbatim>\<open>std::bad_alloc\<close> and leaves the counter at 0.
\<close>

theorem allocate_bad_alloc_changes_counter:
  "fst (allocate (snd (allocate (snd (deallocate single 0x2000 1)) 1)) 1) = Inl bad_alloc
   \<and> available_count (snd (allocate (snd (deallocate single 0x2000 1)) 1)) = 1
   \<and> available_count (snd (allocate (snd (allocate (snd (deallocate single 0x2000 1)) 1)) 1)) = 0"
  by (simp add: evaluation)

text \<open>
  C3, amended: when \<^verbatim>\<open>allocate\<close> throws, the bitset and the map are as they were before
  the call, and when the exception is one of its two \<^verbatim>\<open>std::length_error\<close>s (no block
  available, more than one block requested) the whole object is as it was; when
  \<^verbatim>\<open>deallocate\<close> throws, the whole object is as it was.
\<close>

theorem failed_call_leaves_bitset_and_map:
  "(allocate this pCount = (Inl e, this') \<longrightarrow>
      blocks_status this' = blocks_status this
      \<and> reserved_blocks_indices this' = reserved_blocks_indices this
      \<and> (e = maximum_objects_exceeded \<or> e = only_one_object_at_once \<longrightarrow> this' = this))
   \<and> (deallocate that ptr size' = (Inl e', that') \<longrightarrow> that' = that)"
  using allocate_throws [of this pCount e this'] deallocate_throws [of that ptr size' e' that']
  by blast

text \<open>
  Witness for C3, amended: a request for two blocks on the allocator of the test program,
  and a deallocation on an object whose map holds an index beyond the bitset.
\<close>

theorem failed_call_leaves_bitset_and_map_witness:
  "allocate allocator 2 = (Inl only_one_object_at_once, allocator)
   \<and> deallocate (allocator\<lparr>reserved_blocks_indices := [0x1000 \<mapsto> 320]\<rparr>) 0x1000 1
       = (Inl out_of_range, allocator\<lparr>reserved_blocks_indices := [0x1000 \<mapsto> 320]\<rparr>)"
proof -
  have "fst (allocate allocator 2) = Inl only_one_object_at_once"
    and "fst (deallocate (allocator\<lparr>reserved_blocks_indices := [0x1000 \<mapsto> 320]\<rparr>) 0x1000 1)
      = Inl out_of_range"
    by (simp_all add: evaluation)
  then have calls: "allocate allocator 2 = (Inl only_one_object_at_once, snd (allocate allocator 2))"
    "deallocate (allocator\<lparr>reserved_blocks_indices := [0x1000 \<mapsto> 320]\<rparr>) 0x1000 1
      = (Inl out_of_range,
         snd (deallocate (allocator\<lparr>reserved_blocks_indices := [0x1000 \<mapsto> 320]\<rparr>) 0x1000 1))"
    by (simp_all add: prod_eq_iff)
  with failed_call_leaves_bitset_and_map [of allocator 2 only_one_object_at_once
      "snd (allocate allocator 2)"
      "allocator\<lparr>reserved_blocks_indices := [0x1000 \<mapsto> 320]\<rparr>" "0x1000" 1 out_of_range
      "snd (deallocate (allocator\<lparr>reserved_blocks_indices := [0x1000 \<mapsto> 320]\<rparr>) 0x1000 1)"]
  show ?thesis
    by simp
qed

subsection \<open>C4: the counting equation\<close>

text \<open>
  C4 states that in every state reached by construction, \<^verbatim>\<open>allocate\<close> and
  \<^verbatim>\<open>deallocate\<close> calls the count of available blocks equals the number of blocks minus
  the number of bits set. Counterexample to C4: the allocator of the test program
  satisfies the equation after construction; a deallocation of the address \<open>0x2000\<close>
  returns normally and the equation no longer holds (17 available, 16 blocks, no bit set).
\<close>

theorem count_invariant_broken_by_deallocate:
  "linear_allocator_ctor 8 (malloc_at 0x1000) 16 = Inr allocator
   \<and> fst (deallocate allocator 0x2000 1) = Inr ()
   \<and> \<not> count_invariant (snd (deallocate allocator 0x2000 1))"
  by (simp add: evaluation count_invariant_def bitset_count_zero)

text \<open>
  C4, amended: the equation holds for every constructed allocator; \<^verbatim>\<open>allocate\<close>
  preserves it whenever it returns or throws one of its two \<^verbatim>\<open>std::length_error\<close>s
  (that is, unless it throws \<^verbatim>\<open>std::bad_alloc\<close> or \<^verbatim>\<open>std::out_of_range\<close>); and
  \<^verbatim>\<open>deallocate\<close> of one block returns and preserves it when the map holds an entry for
  the address and the bit of the recorded block is set.
\<close>

theorem count_invariant_preserved:
  "(linear_allocator_ctor sizeof_T malloc n = Inr fresh \<longrightarrow> count_invariant fresh)
   \<and> (count_invariant this \<and> allocate this pCount = (r, this')
        \<and> r \<noteq> Inl bad_alloc \<and> r \<noteq> Inl out_of_range \<longrightarrow> count_invariant this')
   \<and> (count_invariant that \<and> reserved_blocks_indices that ptr = Some i
        \<and> bit (blocks_status that) (unat i) \<longrightarrow>
        (\<exists>that'. deallocate that ptr 1 = (Inr (), that') \<and> count_invariant that'))"
proof (intro conjI impI)
  assume "linear_allocator_ctor sizeof_T malloc n = Inr fresh"
  then show "count_invariant fresh"
    by (rule count_invariant_ctor)
next
  assume call: "count_invariant this \<and> allocate this pCount = (r, this')
    \<and> r \<noteq> Inl bad_alloc \<and> r \<noteq> Inl out_of_range"
  show "count_invariant this'"
  proof (cases r)
    case (Inl e)
    with call allocate_throws_kinds [of this pCount e this']
    have "e = maximum_objects_exceeded \<or> e = only_one_object_at_once"
      by blast
    with call Inl allocate_throws(3) [of this pCount e this'] show ?thesis
      by blast
  next
    case (Inr p)
    with call show ?thesis
      by (blast intro: count_invariant_allocate)
  qed
next
  assume "count_invariant that \<and> reserved_blocks_indices that ptr = Some i
    \<and> bit (blocks_status that) (unat i)"
  then show "\<exists>that'. deallocate that ptr 1 = (Inr (), that') \<and> count_invariant that'"
    by (blast intro: count_invariant_deallocate)
qed

text \<open>
  Witness for C4, amended: the allocator of the test program is constructed, one block is
  allocated at \<open>0x1000\<close>, and that address is deallocated.
\<close>

theorem count_invariant_preserved_witness:
  "linear_allocator_ctor 8 (malloc_at 0x1000) 16 = Inr allocator
   \<and> count_invariant allocator
   \<and> allocate allocator 1 = (Inr 0x1000, snd (allocate allocator 1))
   \<and> count_invariant (snd (allocate allocator 1))
   \<and> reserved_blocks_indices (snd (allocate allocator 1)) 0x1000 = Some 0
   \<and> bit (blocks_status (snd (allocate allocator 1))) (unat (0 :: size_t))
   \<and> (\<exists>that'. deallocate (snd (allocate allocator 1)) 0x1000 1 = (Inr (), that')
        \<and> count_invariant that')"
proof -
  note preserved = count_invariant_preserved [of 8 "malloc_at 0x1000" 16 allocator
      allocator 1 "Inr 0x1000" "snd (allocate allocator 1)"
      "snd (allocate allocator 1)" "0x1000" 0]
  have constructed: "linear_allocator_ctor 8 (malloc_at 0x1000) 16 = Inr allocator"
    by (simp add: evaluation)
  have "fst (allocate allocator 1) = Inr 0x1000"
    by (simp add: evaluation)
  then have allocated: "allocate allocator 1 = (Inr 0x1000, snd (allocate allocator 1))"
    by (simp add: prod_eq_iff)
  have entry: "reserved_blocks_indices (snd (allocate allocator 1)) 0x1000 = Some 0"
    and occupied: "bit (blocks_status (snd (allocate allocator 1))) (unat (0 :: size_t))"
    by (simp_all add: evaluation)
  from preserved constructed have fresh: "count_invariant allocator"
    by blast
  with preserved allocated have after: "count_invariant (snd (allocate allocator 1))"
    by blast
  with preserved entry occupied
  have "\<exists>that'. deallocate (snd (allocate allocator 1)) 0x1000 1 = (Inr (), that')
        \<and> count_invariant that'"
    by blast
  with constructed fresh allocated after entry occupied show ?thesis
    by blast
qed

subsection \<open>C5: construction with more blocks than the bitset has bits\<close>

text \<open>
  C5 states that construction fails with a capacity error when the requested number of
  blocks exceeds the width of the bitset. The constructor compares nothing with
  \<^verbatim>\<open>OBJECTS_LIMIT\<close>. Counterexample to C5: 321 blocks of 8 bytes, with a \<^verbatim>\<open>std::malloc\<close>
  that succeeds, give an allocator of 321 blocks.
\<close>

theorem ctor_above_limit_returns:
  "OBJECTS_LIMIT < unat (321 :: size_t)
   \<and> \<not> isl (linear_allocator_ctor 8 (malloc_at 0x1000) 321)
   \<and> count (projr (linear_allocator_ctor 8 (malloc_at 0x1000) 321)) = 321
   \<and> available_size (projr (linear_allocator_ctor 8 (malloc_at 0x1000) 321)) = 321"
  by (simp add: evaluation available_size_def)

text \<open>
  C5, amended: construction fails only when \<^verbatim>\<open>std::malloc\<close> returns no storage, and then
  with \<^verbatim>\<open>std::bad_alloc\<close>; otherwise, whatever the requested number of blocks, also above
  the width of the bitset, it produces an allocator with that number of blocks, all of
  them available and none reserved.
\<close>

theorem ctor_fails_only_without_storage:
  "(malloc (sizeof_T * pCount) = nullptr \<longrightarrow>
      linear_allocator_ctor sizeof_T malloc pCount = Inl bad_alloc)
   \<and> (malloc (sizeof_T * pCount) \<noteq> nullptr \<longrightarrow>
      (\<exists>this. linear_allocator_ctor sizeof_T malloc pCount = Inr this
         \<and> count this = pCount \<and> available_size this = pCount \<and> reserved_size this = 0
         \<and> bitset_count (blocks_status this) = 0))"
  by (simp add: linear_allocator_ctor_def available_size_def reserved_size_def
      bitset_count_zero)

text \<open>
  Witness for C5, amended: 321 blocks with a \<^verbatim>\<open>std::malloc\<close> that fails, and with one
  that succeeds.
\<close>

theorem ctor_fails_only_without_storage_witness:
  "malloc_fails (8 * 321) = nullptr
   \<and> linear_allocator_ctor 8 malloc_fails 321 = Inl bad_alloc
   \<and> malloc_at 0x1000 (8 * 321) \<noteq> nullptr
   \<and> (\<exists>this. linear_allocator_ctor 8 (malloc_at 0x1000) 321 = Inr this
         \<and> count this = 321 \<and> available_size this = 321 \<and> reserved_size this = 0
         \<and> bitset_count (blocks_status this) = 0)"
proof -
  have fails: "malloc_fails (8 * 321) = nullptr"
    and succeeds: "malloc_at 0x1000 (8 * 321) \<noteq> nullptr"
    by (simp_all add: malloc_fails_def malloc_at_def)
  with ctor_fails_only_without_storage [of malloc_fails 8 321]
    ctor_fails_only_without_storage [of "malloc_at 0x1000" 8 321]
  show ?thesis
    by blast
qed

subsection \<open>C6: a request for more than one block\<close>

text \<open>
  C6 states that in every state, an exhausted allocator included, \<^verbatim>\<open>allocate\<close> with a
  count above one fails with the error for an unsupported count and leaves the count of
  available blocks as it was. The check for exhaustion comes first. Counterexample to
  C6: on the allocator of one block, after its block is allocated, a request for two
  blocks throws the \<^verbatim>\<open>std::length_error\<close> for exhaustion, whose message differs from the
  one for an unsupported count.
\<close>

theorem allocate_two_when_exhausted:
  "available_size (snd (allocate single 1)) = 0
   \<and> fst (allocate (snd (allocate single 1)) 2) = Inl maximum_objects_exceeded
   \<and> fst (allocate (snd (allocate single 1)) 2) \<noteq> Inl only_one_object_at_once"
  by (simp add: evaluation available_size_def)

text \<open>
  C6, amended: \<^verbatim>\<open>allocate\<close> with a count above one always throws a
  \<^verbatim>\<open>std::length_error\<close> and leaves the whole object, so also the count of available
  blocks, as it was; the error is the one for an unsupported count when at least one
  block is available, and the one for exhaustion when none is.
\<close>

theorem allocate_many_rejected:
  "1 < pCount \<Longrightarrow>
     allocate this pCount =
       (Inl (if available_count this < 1 then maximum_objects_exceeded
             else only_one_object_at_once), this)"
  by (simp add: allocate_def)

text \<open>Witness for C6, amended: two blocks requested from the allocator of the test program.\<close>

theorem allocate_many_rejected_witness:
  "(1 :: size_t) < 2 \<and> allocate allocator 2 = (Inl only_one_object_at_once, allocator)"
proof -
  have two: "(1 :: size_t) < 2"
    by simp
  have "\<not> available_count allocator < 1"
    by (simp add: allocator_def)
  with two allocate_many_rejected [OF two, of allocator] show ?thesis
    by simp
qed

subsection \<open>C7: a request for no block\<close>

text \<open>
  C7 states that in every state, an exhausted allocator included, \<^verbatim>\<open>allocate\<close> with a
  count of zero returns a null pointer and changes nothing. The check for exhaustion
  comes first. Counterexample to C7: on the allocator of one block, after its block is
  allocated, a request for no block throws the \<^verbatim>\<open>std::length_error\<close> for exhaustion.
\<close>

theorem allocate_zero_when_exhausted:
  "available_size (snd (allocate single 1)) = 0
   \<and> fst (allocate (snd (allocate single 1)) 0) = Inl maximum_objects_exceeded"
  by (simp add: evaluation available_size_def)

text \<open>
  C7, amended: \<^verbatim>\<open>allocate\<close> with a count of zero leaves the whole object as it was; it
  returns a null pointer when at least one block is available, and throws the
  \<^verbatim>\<open>std::length_error\<close> for exhaustion when none is.
\<close>

theorem allocate_zero:
  "(\<not> available_count this < 1 \<longrightarrow> allocate this 0 = (Inr nullptr, this))
   \<and> (available_count this < 1 \<longrightarrow> allocate this 0 = (Inl maximum_objects_exceeded, this))"
  by (simp add: allocate_def)

text \<open>
  Witness for C7, amended: the allocator of the test program, and the allocator of one
  block after its block is allocated.
\<close>

theorem allocate_zero_witness:
  "\<not> available_count allocator < 1
   \<and> allocate allocator 0 = (Inr nullptr, allocator)
   \<and> available_count (snd (allocate single 1)) < 1
   \<and> allocate (snd (allocate single 1)) 0
       = (Inl maximum_objects_exceeded, snd (allocate single 1))"
proof -
  have available: "\<not> available_count allocator < 1"
    by (simp add: allocator_def)
  have exhausted: "available_count (snd (allocate single 1)) < 1"
    by (simp add: evaluation)
  from available exhausted allocate_zero [of allocator]
    allocate_zero [of "snd (allocate single 1)"]
  show ?thesis
    by blast
qed

subsection \<open>C8: equality of two allocators\<close>

text \<open>
  C8 states that two distinct allocators do not compare equal: \<^verbatim>\<open>operator==\<close> does not
  report unconditionally that blocks allocated from one may be deallocated through the
  other. Its comment gives that meaning to \<^verbatim>\<open>true\<close>, and the function returns \<^verbatim>\<open>true\<close>
  for every pair. The two allocators of 16 blocks have different buffers and compare
  equal; the block allocated from the first at \<open>0x1000\<close>, deallocated through the second,
  leaves the second with 17 available blocks out of 16.
\<close>

theorem operator_eq_of_distinct_allocators:
  "buffer allocator \<noteq> buffer other_allocator
   \<and> operator_eq allocator other_allocator
   \<and> fst (allocate allocator 1) = Inr 0x1000
   \<and> fst (deallocate other_allocator 0x1000 1) = Inr ()
   \<and> count other_allocator = 16
   \<and> available_size (snd (deallocate other_allocator 0x1000 1)) = 17"
  by (simp add: evaluation operator_eq_def available_size_def)

subsection \<open>C9: allocation followed by deallocation\<close>

text \<open>
  C9: when \<^verbatim>\<open>allocate\<close> of one block returns an address, \<^verbatim>\<open>deallocate\<close> of that address
  right after it returns as well, and the count of available blocks is then what it was
  before the two calls.
\<close>

theorem allocate_deallocate_available_size:
  assumes "allocate this 1 = (Inr ptr, this')"
  shows "\<exists>this''. deallocate this' ptr 1 = (Inr (), this'')
           \<and> available_size this'' = available_size this"
proof -
  from allocate_returns [OF assms] obtain j where j: "unat j < OBJECTS_LIMIT"
    and this': "this' = this\<lparr>available_count := available_count this - 1,
                  blocks_status := set_bit (unat j) (blocks_status this),
                  reserved_blocks_indices := (reserved_blocks_indices this)(ptr \<mapsto> j),
                  freedIndex := 0\<rparr>"
    by auto
  from this' have "reserved_blocks_indices this' ptr = Some j"
    by simp
  from deallocate_tracked [OF this j, of 1] this' show ?thesis
    by (simp add: available_size_def)
qed

text \<open>
  Witness for C9: the two calls of the test program, on its allocator of 16 blocks.
\<close>

theorem allocate_deallocate_available_size_witness:
  "allocate allocator 1 = (Inr 0x1000, snd (allocate allocator 1))
   \<and> available_size allocator = 16
   \<and> available_size (snd (allocate allocator 1)) = 15
   \<and> (\<exists>this''. deallocate (snd (allocate allocator 1)) 0x1000 1 = (Inr (), this'')
        \<and> available_size this'' = available_size allocator)"
proof -
  have "fst (allocate allocator 1) = Inr 0x1000"
    by (simp add: evaluation)
  then have allocated: "allocate allocator 1 = (Inr 0x1000, snd (allocate allocator 1))"
    by (simp add: prod_eq_iff)
  have "available_size allocator = 16" and "available_size (snd (allocate allocator 1)) = 15"
    by (simp_all add: evaluation available_size_def)
  with allocated allocate_deallocate_available_size [OF allocated] show ?thesis
    by blast
qed

subsection \<open>C10: inequality of two allocators\<close>

text \<open>
  C10: \<^verbatim>\<open>operator!=\<close> is defined by a call of itself on the same two operands, so for no
  pair of allocators does it return a value.
\<close>

theorem operator_ne_never_returns: "operator_ne this pOther = None"
proof (cases "operator_ne this pOther")
  case None
  then show ?thesis .
next
  case (Some r)
  have "operator_ne this pOther = Some r \<Longrightarrow> False"
    by (rule operator_ne.raw_induct [where P = "\<lambda>_ _ _. False"]) (auto split: bind_splits)
  with Some show ?thesis
    by simp
qed

end
